theory Spec2Isabelle
  imports Main "HOL-Library.Word"
begin

unbundle bit_operations_syntax

section \<open>Bytes, strings and the cryptographic library\<close>

text \<open>
  Python \<open>bytes\<close> are lists of 8-bit words. A Python \<open>str\<close> is a \<open>string\<close>, the list
  of its UTF-8 code units, so that \<open>str.encode()\<close> reads each unit as a byte.
\<close>

type_synonym byte = "8 word"
type_synonym bytes = "byte list"

definition encode :: "string \<Rightarrow> bytes" where
  "encode s = map of_char s"

text \<open>
  The exceptions the library calls of the protocol can raise, all of them \<open>ValueError\<close>
  in Python: \<open>bytes.fromhex\<close> on a malformed string, \<open>AES.new\<close> on a key or IV of the
  wrong length, the CBC cipher on data that is not block aligned, and \<open>unpad\<close>, whose
  two padding errors are kept apart.
\<close>

datatype exn =
    NonHexadecimal
  | IncorrectKeyLength
  | IncorrectIVLength
  | DataNotAligned
  | ZeroLengthInput
  | InputNotPadded
  | PaddingIncorrect
  | PKCS7PaddingIncorrect

text \<open>
  The primitives of \<open>Crypto.Hash\<close> and \<open>Crypto.Cipher\<close> are not part of the repository:
  they are parameters of the model. \<open>sha256\<close> is \<open>SHA256.new(data).digest()\<close>,
  \<open>hmac_sha256 key msg\<close> is \<open>HMAC.new(key, digestmod=SHA256)\<close> updated with \<open>msg\<close> and
  digested, \<open>aes_block_encrypt key block\<close> and \<open>aes_block_decrypt key block\<close> are the AES
  permutation of one 16-byte block and its inverse, and \<open>exc_text\<close> is \<open>str(e)\<close> of a
  raised exception. On \<open>bytes\<close> arguments neither hash raises.
\<close>

record crypto =
  sha256 :: "bytes \<Rightarrow> bytes"
  hmac_sha256 :: "bytes \<Rightarrow> bytes \<Rightarrow> bytes"
  aes_block_encrypt :: "bytes \<Rightarrow> bytes \<Rightarrow> bytes"
  aes_block_decrypt :: "bytes \<Rightarrow> bytes \<Rightarrow> bytes"
  exc_text :: "exn \<Rightarrow> string"

section \<open>AuthenticationProtocol\<close>

definition KEY_SIZE :: nat where "KEY_SIZE = 32"
definition EPHEMERAL_SIZE :: nat where "EPHEMERAL_SIZE = 32"
definition COMMITMENT_SIZE :: nat where "COMMITMENT_SIZE = 16"

text \<open>
  \<open>generate_keypair\<close>: the two draws of \<open>get_random_bytes\<close> are the arguments
  \<open>rand_private\<close> (\<open>KEY_SIZE\<close> bytes) and \<open>rand_public\<close> (32 bytes).
\<close>

definition generate_keypair :: "crypto \<Rightarrow> bytes \<Rightarrow> bytes \<Rightarrow> bytes \<times> bytes" where
  "generate_keypair P rand_private rand_public =
     (let private_key = rand_private;
          public_key_part1 = sha256 P private_key;
          public_key_part2 = rand_public;
          public_key = public_key_part1 @ public_key_part2
      in (private_key, public_key))"

text \<open>
  \<open>encapsulate\<close>: \<open>ephemeral_seed\<close> is the draw of
  \<open>get_random_bytes(EPHEMERAL_SIZE)\<close>. The result is \<open>(ciphertext, shared_secret)\<close>.
\<close>

definition encapsulate :: "crypto \<Rightarrow> bytes \<Rightarrow> bytes \<Rightarrow> bytes \<times> bytes" where
  "encapsulate P ephemeral_seed public_key =
     (let ephemeral_key = sha256 P ephemeral_seed;
          encapsulation_input = ephemeral_key @ public_key;
          shared_secret = sha256 P encapsulation_input;
          ciphertext = ephemeral_seed
      in (ciphertext, shared_secret))"

text \<open>
  \<open>decapsulate\<close>: \<open>decapsulate_body\<close> is the body of the \<open>try\<close>, \<open>Inl\<close> an exception
  raised in it. The body hashes and concatenates \<open>bytes\<close>, which does not raise, and
  checks no length, so the handler, which prints the exception and returns \<open>None\<close>,
  is not reached on \<open>bytes\<close> arguments.
\<close>

definition decapsulate_body :: "crypto \<Rightarrow> bytes \<Rightarrow> bytes \<Rightarrow> bytes \<Rightarrow> exn + bytes" where
  "decapsulate_body P private_key ciphertext public_key =
     (let ephemeral_seed = ciphertext;
          ephemeral_key = sha256 P ephemeral_seed;
          decapsulation_input = ephemeral_key @ public_key;
          shared_secret = sha256 P decapsulation_input
      in Inr shared_secret)"

definition decapsulate :: "crypto \<Rightarrow> bytes \<Rightarrow> bytes \<Rightarrow> bytes \<Rightarrow> bytes option" where
  "decapsulate P private_key ciphertext public_key =
     (case decapsulate_body P private_key ciphertext public_key of
        Inl e \<Rightarrow> None
      | Inr shared_secret \<Rightarrow> Some shared_secret)"

definition AUTH_TAG :: bytes where
  "AUTH_TAG = encode ''AUTH_TAG''"

text \<open>\<open>create_session_key\<close> of \<open>blockchain/auth_protocol.py\<close>: \<open>(session_key, authentication_tag)\<close>.\<close>

definition create_session_key :: "crypto \<Rightarrow> bytes \<Rightarrow> string \<Rightarrow> bytes \<times> bytes" where
  "create_session_key P shared_secret sid =
     (let session_key = hmac_sha256 P shared_secret (encode sid);
          authentication_tag = hmac_sha256 P shared_secret (AUTH_TAG @ encode sid)
      in (session_key, authentication_tag))"

text \<open>\<open>create_session_key\<close> of \<open>auth_protocol_fallback.py\<close>.\<close>

definition fallback_create_session_key :: "crypto \<Rightarrow> bytes \<Rightarrow> string \<Rightarrow> bytes \<times> bytes" where
  "fallback_create_session_key P shared_secret sid =
     (let h_session = hmac_sha256 P shared_secret;
          session_key = h_session (encode sid);
          h_auth = hmac_sha256 P shared_secret;
          authentication_tag = h_auth (AUTH_TAG @ encode sid)
      in (session_key, authentication_tag))"

section \<open>Library functions on bytes\<close>

text \<open>\<open>bytes.hex()\<close>: two lower-case hexadecimal digits for each byte.\<close>

definition hexdigits :: string where
  "hexdigits = ''0123456789abcdef''"

definition hex_byte :: "byte \<Rightarrow> string" where
  "hex_byte b = [hexdigits ! unat (drop_bit 4 b), hexdigits ! unat (b AND 15)]"

definition hex :: "bytes \<Rightarrow> string" where
  "hex bs = concat (map hex_byte bs)"

text \<open>
  \<open>bytes.fromhex\<close>: ASCII whitespace is skipped before each pair of digits, digits of
  either case are accepted, and anything else (a character that is no digit, a digit
  without its partner) raises \<open>ValueError\<close>.
\<close>

definition isspace :: "char \<Rightarrow> bool" where
  "isspace c = ((of_char c :: nat) \<in> {9, 10, 11, 12, 13, 32})"

definition digit_value :: "char \<Rightarrow> nat option" where
  "digit_value c =
     (let n = (of_char c :: nat) in
      if 48 \<le> n \<and> n \<le> 57 then Some (n - 48)
      else if 97 \<le> n \<and> n \<le> 102 then Some (n - 87)
      else if 65 \<le> n \<and> n \<le> 70 then Some (n - 55)
      else None)"

fun fromhex :: "string \<Rightarrow> exn + bytes" where
  "fromhex [] = Inr []"
| "fromhex (c # cs) =
     (if isspace c then fromhex cs
      else case cs of
        [] \<Rightarrow> Inl NonHexadecimal
      | d # ds \<Rightarrow>
          (case (digit_value c, digit_value d) of
             (Some hi, Some lo) \<Rightarrow>
               (case fromhex ds of
                  Inl e \<Rightarrow> Inl e
                | Inr r \<Rightarrow> Inr ((push_bit 4 (of_nat hi) + of_nat lo) # r))
           | _ \<Rightarrow> Inl NonHexadecimal))"

text \<open>\<open>Crypto.Util.Padding.pad\<close> and \<open>unpad\<close> in their default style, PKCS#7.\<close>

definition pad :: "bytes \<Rightarrow> nat \<Rightarrow> bytes" where
  "pad data_to_pad bsize =
     (let padding_len = bsize - length data_to_pad mod bsize
      in data_to_pad @ replicate padding_len (of_nat padding_len))"

definition unpad :: "bytes \<Rightarrow> nat \<Rightarrow> exn + bytes" where
  "unpad padded_data bsize =
     (let pdata_len = length padded_data in
      if pdata_len = 0 then Inl ZeroLengthInput
      else if pdata_len mod bsize \<noteq> 0 then Inl InputNotPadded
      else
        let padding_len = unat (last padded_data) in
        if padding_len < 1 \<or> padding_len > min bsize pdata_len then Inl PaddingIncorrect
        else if drop (pdata_len - padding_len) padded_data
                  \<noteq> replicate padding_len (of_nat padding_len)
        then Inl PKCS7PaddingIncorrect
        else Inr (take (pdata_len - padding_len) padded_data))"

text \<open>
  \<open>AES.new(key, AES.MODE_CBC, iv)\<close> checks the key length, then the IV length; the
  cipher object is the pair of both. \<open>encrypt\<close> and \<open>decrypt\<close> refuse data that is not a
  multiple of the block size and chain the blocks: each plaintext block is xored with
  the previous ciphertext block (the IV for the first) before the block cipher.
\<close>

definition block_size :: nat where
  "block_size = 16"

definition strxor :: "bytes \<Rightarrow> bytes \<Rightarrow> bytes" where
  "strxor a b = map2 (XOR) a b"

definition AES_new :: "bytes \<Rightarrow> bytes \<Rightarrow> exn + (bytes \<times> bytes)" where
  "AES_new key iv =
     (if length key \<notin> {16, 24, 32} then Inl IncorrectKeyLength
      else if length iv \<noteq> block_size then Inl IncorrectIVLength
      else Inr (key, iv))"

function cbc_encrypt_blocks :: "(bytes \<Rightarrow> bytes) \<Rightarrow> bytes \<Rightarrow> bytes \<Rightarrow> bytes" where
  "cbc_encrypt_blocks E prev data =
     (if data = [] then []
      else let c = E (strxor (take block_size data) prev)
           in c @ cbc_encrypt_blocks E c (drop block_size data))"
  by pat_completeness auto
termination
  by (relation "measure (\<lambda>(E, prev, data). length data)") (auto simp: block_size_def)

function cbc_decrypt_blocks :: "(bytes \<Rightarrow> bytes) \<Rightarrow> bytes \<Rightarrow> bytes \<Rightarrow> bytes" where
  "cbc_decrypt_blocks D prev data =
     (if data = [] then []
      else let c = take block_size data
           in strxor (D c) prev @ cbc_decrypt_blocks D c (drop block_size data))"
  by pat_completeness auto
termination
  by (relation "measure (\<lambda>(D, prev, data). length data)") (auto simp: block_size_def)

declare cbc_encrypt_blocks.simps [simp del]
declare cbc_decrypt_blocks.simps [simp del]

definition cipher_encrypt :: "crypto \<Rightarrow> bytes \<times> bytes \<Rightarrow> bytes \<Rightarrow> exn + bytes" where
  "cipher_encrypt P cipher data =
     (case cipher of (key, iv) \<Rightarrow>
        if length data mod block_size \<noteq> 0 then Inl DataNotAligned
        else Inr (cbc_encrypt_blocks (aes_block_encrypt P key) iv data))"

definition cipher_decrypt :: "crypto \<Rightarrow> bytes \<times> bytes \<Rightarrow> bytes \<Rightarrow> exn + bytes" where
  "cipher_decrypt P cipher data =
     (case cipher of (key, iv) \<Rightarrow>
        if length data mod block_size \<noteq> 0 then Inl DataNotAligned
        else Inr (cbc_decrypt_blocks (aes_block_decrypt P key) iv data))"

section \<open>DeviceAuthenticationSession\<close>

text \<open>
  The object's attributes. \<open>state\<close> is a Python string. An event is the pair of its
  \<open>timestamp\<close> and its \<open>event_type\<close>; a returned \<open>dict\<close> is the list of its items in
  insertion order.
\<close>

type_synonym event = "string \<times> string"
type_synonym dict = "(string \<times> string) list"

record session =
  device_id :: string
  gateway_id :: string
  session_id :: string
  created_at :: string
  state :: string
  device_public_key :: "bytes option"
  shared_secret :: "bytes option"
  session_key :: "bytes option"
  authentication_tag :: "bytes option"
  events :: "event list"

text \<open>
  \<open>__init__\<close>: \<open>timestamp\<close> is the text of \<open>datetime.now().timestamp()\<close> and \<open>now\<close> that of
  \<open>datetime.now().isoformat()\<close>. Every later reading of the clock is an argument of
  the operation that reads it, and so is every draw of \<open>get_random_bytes\<close>.
\<close>

definition init_session :: "string \<Rightarrow> string \<Rightarrow> string \<Rightarrow> string \<Rightarrow> session" where
  "init_session dev gw timestamp now =
     \<lparr> device_id = dev,
       gateway_id = gw,
       session_id = dev @ ''_'' @ gw @ ''_'' @ timestamp,
       created_at = now,
       state = ''INITIALIZED'',
       device_public_key = None,
       shared_secret = None,
       session_key = None,
       authentication_tag = None,
       events = [] \<rparr>"

definition log_event :: "string \<Rightarrow> string \<Rightarrow> session \<Rightarrow> session" where
  "log_event now event_type s = s\<lparr>events := events s @ [(now, event_type)]\<rparr>"

definition start_authentication ::
  "crypto \<Rightarrow> bytes \<Rightarrow> string \<Rightarrow> string \<Rightarrow> string \<Rightarrow> session \<Rightarrow> bytes \<Rightarrow> dict \<times> session" where
  "start_authentication P ephemeral_seed now1 now2 now3 s pk =
     (if state s \<noteq> ''INITIALIZED''
      then ([(''status'', ''ERROR''), (''message'', ''Invalid session state'')], s)
      else
        let s1 = s\<lparr>device_public_key := Some pk\<rparr>;
            s2 = s1\<lparr>state := ''PUBLIC_KEY_RECEIVED''\<rparr>;
            s3 = log_event now1 ''PUBLIC_KEY_RECEIVED'' s2;
            (ciphertext, secret) = encapsulate P ephemeral_seed pk;
            s4 = s3\<lparr>shared_secret := Some secret\<rparr>;
            s5 = s4\<lparr>state := ''ENCAPSULATED''\<rparr>;
            s6 = log_event now2 ''ENCAPSULATED'' s5;
            response =
              [(''session_id'', session_id s6),
               (''status'', ''OK''),
               (''ciphertext'', hex ciphertext),
               (''commitment'', hex (take COMMITMENT_SIZE secret)),
               (''timestamp'', now3)]
        in (response, s6))"

definition verify_authentication ::
  "crypto \<Rightarrow> string \<Rightarrow> session \<Rightarrow> bytes \<Rightarrow> bool \<times> session" where
  "verify_authentication P now s device_commitment =
     (if state s \<noteq> ''ENCAPSULATED'' \<or> shared_secret s = None then (False, s)
      else
        let secret = the (shared_secret s);
            expected_commitment = take COMMITMENT_SIZE secret
        in if device_commitment \<noteq> expected_commitment
           then (False, log_event now ''AUTHENTICATION_FAILED'' s)
           else
             let (key, auth_tag) = create_session_key P secret (session_id s);
                 s1 = s\<lparr>session_key := Some key\<rparr>;
                 s2 = s1\<lparr>authentication_tag := Some auth_tag\<rparr>;
                 s3 = s2\<lparr>state := ''AUTHENTICATED''\<rparr>
             in (True, log_event now ''AUTHENTICATED'' s3))"

text \<open>
  \<open>encrypt_message\<close> has no \<open>try\<close>: an exception of the library leaves the method, the
  result \<open>Inl\<close>. \<open>iv\<close> is the draw of \<open>get_random_bytes(16)\<close>. The session is not changed.
\<close>

definition encrypt_message ::
  "crypto \<Rightarrow> bytes \<Rightarrow> string \<Rightarrow> session \<Rightarrow> bytes \<Rightarrow> exn + dict" where
  "encrypt_message P iv now s plaintext =
     (if state s \<noteq> ''AUTHENTICATED'' \<or> session_key s = None
      then Inr [(''status'', ''ERROR''), (''message'', ''Session not authenticated'')]
      else
        let key = the (session_key s) in
        case AES_new key iv of
          Inl e \<Rightarrow> Inl e
        | Inr cipher \<Rightarrow>
            let padded_plaintext = pad plaintext block_size in
            (case cipher_encrypt P cipher padded_plaintext of
               Inl e \<Rightarrow> Inl e
             | Inr ciphertext \<Rightarrow>
                 let hmac_tag = hmac_sha256 P key ciphertext
                 in Inr [(''iv'', hex iv),
                         (''ciphertext'', hex ciphertext),
                         (''hmac'', hex hmac_tag),
                         (''timestamp'', now)]))"

text \<open>
  \<open>decrypt_message\<close>: \<open>decrypt_body\<close> is the body of the \<open>try\<close>, \<open>Inl\<close> an exception raised
  in it and \<open>Inr\<close> the value its \<open>return\<close> gives together with the session then. The
  handler logs the exception and returns \<open>None\<close>.
\<close>

definition decrypt_body ::
  "crypto \<Rightarrow> string \<Rightarrow> session \<Rightarrow> bytes \<Rightarrow> string \<Rightarrow> string \<Rightarrow> string
     \<Rightarrow> exn + (bytes option \<times> session)" where
  "decrypt_body P now s key iv_hex ciphertext_hex hmac_hex =
     (case fromhex iv_hex of
        Inl e \<Rightarrow> Inl e
      | Inr iv \<Rightarrow>
     (case fromhex ciphertext_hex of
        Inl e \<Rightarrow> Inl e
      | Inr ciphertext \<Rightarrow>
     (case fromhex hmac_hex of
        Inl e \<Rightarrow> Inl e
      | Inr hmac_received \<Rightarrow>
          let hmac_expected = hmac_sha256 P key ciphertext in
          if hmac_received \<noteq> hmac_expected
          then Inr (None, log_event now ''DECRYPTION_HMAC_FAILED'' s)
          else
            (case AES_new key iv of
               Inl e \<Rightarrow> Inl e
             | Inr cipher \<Rightarrow>
            (case cipher_decrypt P cipher ciphertext of
               Inl e \<Rightarrow> Inl e
             | Inr padded_plaintext \<Rightarrow>
            (case unpad padded_plaintext block_size of
               Inl e \<Rightarrow> Inl e
             | Inr plaintext \<Rightarrow>
                 Inr (Some plaintext, log_event now ''MESSAGE_DECRYPTED'' s)))))))"

definition decrypt_message ::
  "crypto \<Rightarrow> string \<Rightarrow> session \<Rightarrow> string \<Rightarrow> string \<Rightarrow> string \<Rightarrow> bytes option \<times> session" where
  "decrypt_message P now s iv_hex ciphertext_hex hmac_hex =
     (if state s \<noteq> ''AUTHENTICATED'' \<or> session_key s = None then (None, s)
      else
        case decrypt_body P now s (the (session_key s)) iv_hex ciphertext_hex hmac_hex of
          Inl e \<Rightarrow> (None, log_event now (''DECRYPTION_ERROR: '' @ exc_text P e) s)
        | Inr r \<Rightarrow> r)"

section \<open>Notions used by the properties\<close>

text \<open>
  The sessions a caller can obtain: a fresh one, and any session left behind by
  \<open>start_authentication\<close> or \<open>verify_authentication\<close> on one obtained before.
\<close>

inductive reachable :: "crypto \<Rightarrow> session \<Rightarrow> bool" for P :: crypto where
  reach_init: "reachable P (init_session dev gw timestamp now)"
| reach_start:
    "reachable P s \<Longrightarrow> reachable P (snd (start_authentication P seed now1 now2 now3 s pk))"
| reach_verify:
    "reachable P s \<Longrightarrow> reachable P (snd (verify_authentication P now s commitment))"


text \<open>
  A small instance of the primitives, on which the hypotheses of the theorems are
  checked by evaluation: digests of 32 bytes that depend on the sum of the input, and
  a block cipher that adds the key's sum to every byte.
\<close>

definition toy_crypto :: crypto where
  "toy_crypto =
     \<lparr> sha256 = (\<lambda>m. replicate 32 (sum_list m + 1)),
       hmac_sha256 = (\<lambda>k m. replicate 32 (sum_list k + 3 * sum_list m)),
       aes_block_encrypt = (\<lambda>k b. map (\<lambda>x. x + sum_list k) b),
       aes_block_decrypt = (\<lambda>k b. map (\<lambda>x. x - sum_list k) b),
       exc_text = (\<lambda>e. ''ValueError'') \<rparr>"

definition toy_session :: session where
  "toy_session = init_session ''DEVICE_001'' ''GATEWAY_001'' ''1.5'' ''2024-01-01T00:00:00''"

definition toy_encapsulated :: session where
  "toy_encapsulated =
     snd (start_authentication toy_crypto [1, 2, 3] ''t1'' ''t2'' ''t3'' toy_session [4, 5])"

definition toy_authenticated :: session where
  "toy_authenticated =
     snd (verify_authentication toy_crypto ''t4'' toy_encapsulated (replicate 16 234))"




section \<open>Properties of the library functions\<close>

text \<open>Hexadecimal text parses back to the bytes it was written from.\<close>

lemma hexdigits_nth:
  "n < 16 \<Longrightarrow> digit_value (hexdigits ! n) = Some n \<and> \<not> isspace (hexdigits ! n)"
proof -
  assume "n < 16"
  then have "n \<in> {0,1,2,3,4,5,6,7,8,9,10,11,12,13,14,15}" by simp arith
  then show ?thesis
    by (auto simp: hexdigits_def digit_value_def isspace_def nth_Cons')
qed

lemma nibbles_bound: "unat (drop_bit 4 (b::byte)) < 16" "unat (b AND 15) < 16"
proof -
  have "unat (drop_bit 4 b) = unat b div 16"
    by (simp add: drop_bit_eq_div unat_div)
  moreover have "unat b < 256" using unsigned_less[of b] by simp
  ultimately show "unat (drop_bit 4 (b::byte)) < 16" by simp
  have "b AND 15 = take_bit 4 b" by (simp add: take_bit_eq_mask mask_eq_exp_minus_1)
  then have "unat (b AND 15) = take_bit 4 (unat b)" by (simp add: unsigned_take_bit_eq)
  then show "unat (b AND 15) < 16" by (simp add: take_bit_eq_mod)
qed

lemma nibbles_join:
  "push_bit 4 (of_nat (unat (drop_bit 4 b))) + of_nat (unat (b AND 15)) = (b::byte)"
proof -
  have a: "b AND 15 = take_bit 4 b" by (simp add: take_bit_eq_mask mask_eq_exp_minus_1)
  have "push_bit 4 (drop_bit 4 b) + take_bit 4 b = b" by (rule bits_ident)
  then show ?thesis unfolding a by simp
qed

lemma fromhex_hex: "fromhex (hex bs) = Inr bs"
proof (induction bs)
  case Nil
  then show ?case by (simp add: hex_def)
next
  case (Cons b bs)
  have "hex (b # bs) = hexdigits ! unat (drop_bit 4 b) # hexdigits ! unat (b AND 15) # hex bs"
    by (simp add: hex_def hex_byte_def)
  then show ?case
    using Cons hexdigits_nth[OF nibbles_bound(1)[of b]] hexdigits_nth[OF nibbles_bound(2)[of b]]
    using nibbles_join[of b] by simp
qed

text \<open>Padding is removed again, and CBC decryption inverts CBC encryption under an invertible block cipher.\<close>

lemma length_pad: "length (pad d 16) mod 16 = 0"
proof -
  have "(length d + (16 - length d mod 16)) mod 16 = 0" by presburger
  then show ?thesis by (simp add: pad_def Let_def)
qed

lemma unpad_pad: "unpad (pad d 16) 16 = Inr d"
proof -
  define n where "n = 16 - length d mod 16"
  have n: "1 \<le> n" "n \<le> 16" unfolding n_def by simp_all
  have p: "pad d 16 = d @ replicate n (of_nat n)" by (simp add: pad_def n_def Let_def)
  have un: "unat (of_nat n :: byte) = n" using n by (simp add: unat_of_nat)
  have lst: "last (pad d 16) = of_nat n" using n unfolding p by simp
  have m: "length (pad d 16) mod 16 = 0" by (rule length_pad)
  have len: "length (pad d 16) = length d + n" unfolding p by simp
  show ?thesis
    unfolding unpad_def Let_def lst un
    using n m by (simp add: len) (simp add: p)
qed

lemma strxor_cancel: "length a = length b \<Longrightarrow> strxor (strxor a b) b = a"
  unfolding strxor_def
  by (induction a b rule: list_induct2) (simp_all add: xor.assoc)

lemma length_strxor: "length (strxor a b) = min (length a) (length b)"
  by (simp add: strxor_def)

lemma cbc_roundtrip:
  assumes inv: "\<And>b. length b = 16 \<Longrightarrow> length (E b) = 16 \<and> D (E b) = b"
  shows "length prev = 16 \<Longrightarrow> length data mod 16 = 0 \<Longrightarrow>
     length (cbc_encrypt_blocks E prev data) = length data \<and>
     cbc_decrypt_blocks D prev (cbc_encrypt_blocks E prev data) = data"
proof (induction data arbitrary: prev rule: length_induct)
  case (1 data)
  show ?case
  proof (cases "data = []")
    case True
    then show ?thesis by (simp add: cbc_encrypt_blocks.simps cbc_decrypt_blocks.simps)
  next
    case False
    with "1.prems" have ge: "16 \<le> length data" by (cases "length data < 16") auto
    define x where "x = strxor (take block_size data) prev"
    define c where "c = E x"
    define rest where "rest = drop block_size data"
    have lx: "length x = 16" using ge "1.prems" by (simp add: x_def length_strxor block_size_def)
    have lc: "length c = 16" and dc: "D c = x" using inv[OF lx] unfolding c_def by simp_all
    have lrest: "length rest < length data" "length rest mod 16 = 0"
      using ge "1.prems" unfolding rest_def block_size_def by (simp, simp, presburger)
    have ih: "length (cbc_encrypt_blocks E c rest) = length rest \<and>
       cbc_decrypt_blocks D c (cbc_encrypt_blocks E c rest) = rest"
      using "1.IH" lrest lc by simp
    have enc: "cbc_encrypt_blocks E prev data = c @ cbc_encrypt_blocks E c rest"
      using False by (subst cbc_encrypt_blocks.simps) (simp add: Let_def c_def x_def rest_def)
    have xback: "strxor x prev = take block_size data"
      unfolding x_def using ge "1.prems" by (simp add: strxor_cancel block_size_def)
    have len: "length (cbc_encrypt_blocks E prev data) = length data"
      unfolding enc using ih lc ge by (simp add: rest_def block_size_def)
    have ne: "c \<noteq> []" using lc by auto
    have "cbc_decrypt_blocks D prev (c @ cbc_encrypt_blocks E c rest)
            = strxor (D c) prev @ cbc_decrypt_blocks D c (cbc_encrypt_blocks E c rest)"
      using ne lc by (subst cbc_decrypt_blocks.simps) (simp add: Let_def block_size_def)
    also have "\<dots> = take block_size data @ rest" using ih dc xback by simp
    also have "\<dots> = data" by (simp add: rest_def)
    finally show ?thesis using len enc by simp
  qed
qed

section \<open>Properties of the message operations\<close>

lemma encrypt_message_ok:
  assumes "state s = ''AUTHENTICATED''" "session_key s = Some key"
    and "length key \<in> {16, 24, 32}" "length iv = 16"
  shows "encrypt_message P iv now s plaintext =
     Inr [(''iv'', hex iv),
          (''ciphertext'',
             hex (cbc_encrypt_blocks (aes_block_encrypt P key) iv (pad plaintext 16))),
          (''hmac'',
             hex (hmac_sha256 P key
                    (cbc_encrypt_blocks (aes_block_encrypt P key) iv (pad plaintext 16)))),
          (''timestamp'', now)]"
  using assms length_pad[of plaintext]
  by (simp add: encrypt_message_def AES_new_def cipher_encrypt_def block_size_def Let_def)

lemma encrypt_message_Inr:
  assumes "state s = ''AUTHENTICATED''" "session_key s = Some key"
    and "encrypt_message P iv now s plaintext = Inr d"
  shows "length key \<in> {16, 24, 32} \<and> length iv = 16"
  using assms
  by (auto simp: encrypt_message_def AES_new_def Let_def block_size_def
           split: if_splits sum.splits)



lemma decrypt_roundtrip:
  assumes inv: "\<And>b. length b = 16 \<Longrightarrow>
                  length (aes_block_encrypt P key b) = 16
                  \<and> aes_block_decrypt P key (aes_block_encrypt P key b) = b"
    and "state s = ''AUTHENTICATED''" "session_key s = Some key"
    and "length key \<in> {16, 24, 32}" "length iv = 16"
    and ct_def: "ct = cbc_encrypt_blocks (aes_block_encrypt P key) iv (pad plaintext 16)"
  shows "decrypt_message P now s (hex iv) (hex ct) (hex (hmac_sha256 P key ct))
           = (Some plaintext, log_event now ''MESSAGE_DECRYPTED'' s)"
proof -
  have rt: "length ct = length (pad plaintext 16) \<and>
     cbc_decrypt_blocks (aes_block_decrypt P key) iv ct = pad plaintext 16"
    unfolding ct_def
    using cbc_roundtrip
            [of "aes_block_encrypt P key" "aes_block_decrypt P key" iv "pad plaintext 16"]
          inv assms(5) length_pad[of plaintext]
    by blast
  then have al: "length ct mod 16 = 0" using length_pad[of plaintext] by simp
  show ?thesis
    using assms(2-5) rt al
    by (simp add: decrypt_message_def decrypt_body_def fromhex_hex AES_new_def
                  cipher_decrypt_def block_size_def unpad_pad Let_def)
qed







section \<open>Properties of the state machine operations\<close>

lemma verify_authentication_match:
  assumes "state s = ''ENCAPSULATED''" "shared_secret s = Some secret"
  shows "verify_authentication P now s (take 16 secret) =
     (True, s\<lparr>session_key := Some (hmac_sha256 P secret (encode (session_id s))),
              authentication_tag := Some (hmac_sha256 P secret (AUTH_TAG @ encode (session_id s))),
              state := ''AUTHENTICATED'',
              events := events s @ [(now, ''AUTHENTICATED'')]\<rparr>)"
  using assms
  by (simp add: verify_authentication_def create_session_key_def COMMITMENT_SIZE_def
                log_event_def Let_def)

lemma verify_authentication_mismatch:
  assumes "state s = ''ENCAPSULATED''" "shared_secret s = Some secret"
    and "commitment \<noteq> take 16 secret"
  shows "verify_authentication P now s commitment =
     (False, s\<lparr>events := events s @ [(now, ''AUTHENTICATION_FAILED'')]\<rparr>)"
  using assms
  by (simp add: verify_authentication_def COMMITMENT_SIZE_def log_event_def Let_def)

lemma verify_authentication_wrong_state:
  assumes "state s \<noteq> ''ENCAPSULATED'' \<or> shared_secret s = None"
  shows "verify_authentication P now s commitment = (False, s)"
  using assms by (auto simp add: verify_authentication_def)

lemma start_authentication_wrong_state:
  assumes "state s \<noteq> ''INITIALIZED''"
  shows "start_authentication P seed now1 now2 now3 s pk =
     ([(''status'', ''ERROR''), (''message'', ''Invalid session state'')], s)"
  using assms by (simp add: start_authentication_def)

lemma start_authentication_ok:
  assumes "state s = ''INITIALIZED''"
  shows "start_authentication P seed now1 now2 now3 s pk =
     ([(''session_id'', session_id s), (''status'', ''OK''), (''ciphertext'', hex seed),
       (''commitment'', hex (take 16 (sha256 P (sha256 P seed @ pk)))), (''timestamp'', now3)],
      s\<lparr>device_public_key := Some pk,
        shared_secret := Some (sha256 P (sha256 P seed @ pk)),
        state := ''ENCAPSULATED'',
        events := events s @ [(now1, ''PUBLIC_KEY_RECEIVED''), (now2, ''ENCAPSULATED'')]\<rparr>)"
  using assms
  by (simp add: start_authentication_def encapsulate_def log_event_def COMMITMENT_SIZE_def Let_def)

section \<open>Key encapsulation\<close>

text \<open>
  C1 (shared secret recoverability). For every keypair that \<open>generate_keypair\<close> produces
  and every call of \<open>encapsulate\<close> on its public key, \<open>decapsulate\<close> on the private key,
  the ciphertext of that call and the public key returns the shared secret of that call.
\<close>

theorem shared_secret_recoverable:
  assumes "generate_keypair P rand_private rand_public = (private_key, public_key)"
    and "encapsulate P ephemeral_seed public_key = (ciphertext, secret)"
  shows "decapsulate P private_key ciphertext public_key = Some secret"
  using assms by (auto simp: encapsulate_def decapsulate_def decapsulate_body_def Let_def)

text \<open>The theorem at a keypair and an encapsulation of the small instance.\<close>

theorem shared_secret_recoverable_witness:
  "generate_keypair toy_crypto [1] [2] = ([1], replicate 32 2 @ [2])
   \<and> encapsulate toy_crypto [5] (replicate 32 2 @ [2]) = ([5], replicate 32 3)
   \<and> decapsulate toy_crypto [1] [5] (replicate 32 2 @ [2]) = Some (replicate 32 3)"
proof -
  have k: "generate_keypair toy_crypto [1] [2] = ([1], replicate 32 2 @ [2])"
    by code_simp
  have e: "encapsulate toy_crypto [5] (replicate 32 2 @ [2]) = ([5], replicate 32 3)"
    by code_simp
  from shared_secret_recoverable [OF k e] k e show ?thesis by blast
qed

text \<open>
  C6 (private-key independence). For every ciphertext and public key, \<open>decapsulate\<close>
  returns the same result under any two private keys.
\<close>

theorem decapsulate_ignores_private_key:
  "decapsulate P sk1 ciphertext public_key = decapsulate P sk2 ciphertext public_key"
  by (simp add: decapsulate_def decapsulate_body_def)

text \<open>
  \<open>decapsulate\<close> does not fail on a ciphertext of one byte and a public key of two:
  failure is not equivalent to a malformed length.
\<close>

theorem decapsulate_length_check_counterexample:
  "\<not> (decapsulate toy_crypto [] [1] [2, 3] = None
        \<longleftrightarrow> length [1 :: byte] \<noteq> 32 \<or> length [2 :: byte, 3] \<noteq> 64)"
  by (simp add: decapsulate_def decapsulate_body_def)

text \<open>
  C9 (decapsulation failure condition), as the code has it. \<open>decapsulate\<close> checks no
  length and never fails: for a private key, a ciphertext and a public key of any
  lengths it returns the digest of the hashed ciphertext followed by the public key,
  which is 32 bytes long when the digests of the hash are.
\<close>

theorem decapsulate_never_fails:
  "decapsulate P private_key ciphertext public_key
     = Some (sha256 P (sha256 P ciphertext @ public_key))
   \<and> ((\<forall>m. length (sha256 P m) = 32) \<longrightarrow>
        (\<exists>secret. decapsulate P private_key ciphertext public_key = Some secret
                  \<and> length secret = 32))"
  by (simp add: decapsulate_def decapsulate_body_def)

text \<open>The theorem at the small instance, whose digests are 32 bytes long.\<close>

theorem decapsulate_never_fails_witness:
  "(\<forall>m. length (sha256 toy_crypto m) = 32)
   \<and> (\<exists>secret. decapsulate toy_crypto [] [1] [2, 3] = Some secret \<and> length secret = 32)"
proof -
  have h: "\<forall>m. length (sha256 toy_crypto m) = 32" by (simp add: toy_crypto_def)
  from decapsulate_never_fails [of toy_crypto "[]" "[1]" "[2, 3]"] h show ?thesis by blast
qed

text \<open>
  C10 (fallback equivalence). For every shared secret and session id,
  \<open>create_session_key\<close> of the fallback module returns the pair that
  \<open>create_session_key\<close> of the protocol module returns.
\<close>

theorem fallback_create_session_key_eq:
  "fallback_create_session_key P secret sid = create_session_key P secret sid"
  by (simp add: fallback_create_session_key_def create_session_key_def)

section \<open>The session state machine\<close>

lemma toy_states:
  "state toy_session = ''INITIALIZED''"
  "state toy_encapsulated = ''ENCAPSULATED''"
  "state toy_authenticated = ''AUTHENTICATED''"
  by code_simp+

text \<open>
  C5 (authentication gating). In every state other than \<open>AUTHENTICATED\<close>,
  \<open>encrypt_message\<close> returns the error "Session not authenticated" and no ciphertext,
  and \<open>decrypt_message\<close> returns \<open>None\<close> and leaves the session as it was.
\<close>

theorem not_authenticated_gating:
  assumes "state s \<noteq> ''AUTHENTICATED''"
  shows "encrypt_message P iv now s plaintext
           = Inr [(''status'', ''ERROR''), (''message'', ''Session not authenticated'')]
         \<and> decrypt_message P now s iv_hex ciphertext_hex hmac_hex = (None, s)"
  using assms by (simp add: encrypt_message_def decrypt_message_def)

text \<open>The theorem at a session in state \<open>ENCAPSULATED\<close>.\<close>

theorem not_authenticated_gating_witness:
  "state toy_encapsulated \<noteq> ''AUTHENTICATED''
   \<and> encrypt_message toy_crypto (replicate 16 0) ''t'' toy_encapsulated [1, 2, 3]
       = Inr [(''status'', ''ERROR''), (''message'', ''Session not authenticated'')]
   \<and> decrypt_message toy_crypto ''t'' toy_encapsulated ''00'' ''00'' ''00''
       = (None, toy_encapsulated)"
proof -
  have h: "state toy_encapsulated \<noteq> ''AUTHENTICATED''" by (simp add: toy_states)
  from not_authenticated_gating [OF h] h show ?thesis by blast
qed

lemma toy_cipher_inverse:
  "length k \<in> {16, 24, 32} \<Longrightarrow> length b = 16 \<Longrightarrow>
     length (aes_block_encrypt toy_crypto k b) = 16
     \<and> aes_block_decrypt toy_crypto k (aes_block_encrypt toy_crypto k b) = b"
  by (simp add: toy_crypto_def o_def)

lemma toy_authenticated_key: "session_key toy_authenticated = Some (replicate 32 28)"
  by code_simp




text \<open>
  C2 (commitment verification). In state \<open>ENCAPSULATED\<close> with the shared secret set,
  \<open>verify_authentication\<close> on the first 16 bytes of the shared secret returns \<open>True\<close>,
  stores the session key and the authentication tag derived from the shared secret and
  the session id, moves to \<open>AUTHENTICATED\<close> and logs \<open>AUTHENTICATED\<close>; a call after
  that returns \<open>False\<close> whatever its argument. On any other commitment it returns
  \<open>False\<close>, logs \<open>AUTHENTICATION_FAILED\<close> and stays in \<open>ENCAPSULATED\<close>.
\<close>

theorem commitment_verification:
  assumes "state s = ''ENCAPSULATED''" and "shared_secret s = Some secret"
  shows "(case verify_authentication P now s (take 16 secret) of
            (ok, s') \<Rightarrow>
              ok
              \<and> session_key s' = Some (hmac_sha256 P secret (encode (session_id s)))
              \<and> authentication_tag s'
                   = Some (hmac_sha256 P secret (AUTH_TAG @ encode (session_id s)))
              \<and> state s' = ''AUTHENTICATED''
              \<and> events s' = events s @ [(now, ''AUTHENTICATED'')]
              \<and> verify_authentication P now' s' commitment' = (False, s'))
         \<and> (commitment \<noteq> take 16 secret \<longrightarrow>
              (case verify_authentication P now s commitment of
                 (ok, s') \<Rightarrow>
                   \<not> ok
                   \<and> state s' = ''ENCAPSULATED''
                   \<and> events s' = events s @ [(now, ''AUTHENTICATION_FAILED'')]))"
  using assms
  by (simp add: verify_authentication_match verify_authentication_mismatch
      verify_authentication_wrong_state)

text \<open>
  The theorem at the session that \<open>start_authentication\<close> leaves, on the true
  commitment and on sixteen zero bytes.
\<close>

theorem commitment_verification_witness:
  "state toy_encapsulated = ''ENCAPSULATED''
   \<and> shared_secret toy_encapsulated = Some (replicate 32 234)
   \<and> replicate 16 0 \<noteq> take 16 (replicate 32 (234 :: byte))
   \<and> fst (verify_authentication toy_crypto ''t'' toy_encapsulated (take 16 (replicate 32 234)))
   \<and> \<not> fst (verify_authentication toy_crypto ''t'' toy_encapsulated (replicate 16 0))"
proof -
  have s: "shared_secret toy_encapsulated = Some (replicate 32 234)" by code_simp
  have n: "replicate 16 0 \<noteq> take 16 (replicate 32 (234 :: byte))" by code_simp
  from commitment_verification [OF toy_states(2) s, of toy_crypto "''t''" "''u''" "[]" "replicate 16 0"]
    n s toy_states(2)
  show ?thesis by (auto split: prod.splits)
qed

text \<open>
  C7 (population invariant). In every session reachable from a fresh one through
  \<open>start_authentication\<close> and \<open>verify_authentication\<close>, the shared secret is set exactly
  when the state is \<open>ENCAPSULATED\<close> or \<open>AUTHENTICATED\<close>, and the session key is set
  exactly when the state is \<open>AUTHENTICATED\<close>.
\<close>

theorem population_invariant:
  assumes "reachable P s"
  shows "(shared_secret s \<noteq> None
            \<longleftrightarrow> state s = ''ENCAPSULATED'' \<or> state s = ''AUTHENTICATED'')
         \<and> (session_key s \<noteq> None \<longleftrightarrow> state s = ''AUTHENTICATED'')"
  using assms
proof (induction rule: reachable.induct)
  case (reach_init dev gw timestamp now)
  show ?case by (simp add: init_session_def)
next
  case (reach_start s seed now1 now2 now3 pk)
  show ?case
  proof (cases "state s = ''INITIALIZED''")
    case True
    then show ?thesis using reach_start.IH by (simp add: start_authentication_ok)
  next
    case False
    then show ?thesis using reach_start.IH by (simp add: start_authentication_wrong_state)
  qed
next
  case (reach_verify s now commitment)
  show ?case
  proof (cases "state s \<noteq> ''ENCAPSULATED'' \<or> shared_secret s = None")
    case True
    then show ?thesis using reach_verify.IH
      by (simp only: verify_authentication_wrong_state snd_conv)
  next
    case False
    then obtain secret where st: "state s = ''ENCAPSULATED''" and sec: "shared_secret s = Some secret"
      by auto
    show ?thesis
    proof (cases "commitment = take 16 secret")
      case True
      then show ?thesis using st sec by (simp add: verify_authentication_match)
    next
      case False
      then show ?thesis using st sec reach_verify.IH
        by (simp add: verify_authentication_mismatch)
    qed
  qed
qed

text \<open>
  The theorem at the session that \<open>start_authentication\<close> leaves.
\<close>

theorem population_invariant_witness:
  "reachable toy_crypto toy_encapsulated
   \<and> shared_secret toy_encapsulated \<noteq> None
   \<and> session_key toy_encapsulated = None"
proof -
  have r: "reachable toy_crypto toy_encapsulated"
    unfolding toy_encapsulated_def toy_session_def by (intro reach_start reach_init)
  from population_invariant [OF r] r toy_states(2) show ?thesis by simp
qed

text \<open>
  C8 (failure atomicity). \<open>start_authentication\<close> in a state other than
  \<open>INITIALIZED\<close> returns the error "Invalid session state" and leaves the session as it
  was; \<open>verify_authentication\<close> outside \<open>ENCAPSULATED\<close>, or without a shared secret,
  returns \<open>False\<close> and leaves the session as it was; and whenever
  \<open>verify_authentication\<close> returns \<open>False\<close>, a wrong commitment included, the state
  field is the one before the call.
\<close>

theorem failure_atomicity:
  "(state s \<noteq> ''INITIALIZED'' \<longrightarrow>
      start_authentication P seed now1 now2 now3 s pk
        = ([(''status'', ''ERROR''), (''message'', ''Invalid session state'')], s))
   \<and> (state s \<noteq> ''ENCAPSULATED'' \<or> shared_secret s = None \<longrightarrow>
      verify_authentication P now s commitment = (False, s))
   \<and> (state s = ''ENCAPSULATED'' \<and> shared_secret s = Some secret
        \<and> commitment \<noteq> take 16 secret \<longrightarrow>
      \<not> fst (verify_authentication P now s commitment))
   \<and> (\<not> fst (verify_authentication P now s commitment) \<longrightarrow>
      state (snd (verify_authentication P now s commitment)) = state s)"
proof -
  have a: "\<not> fst (verify_authentication P now s commitment) \<longrightarrow>
      state (snd (verify_authentication P now s commitment)) = state s"
    by (simp add: verify_authentication_def log_event_def Let_def split: prod.splits)
  show ?thesis
    using a by (auto simp add: start_authentication_wrong_state
       verify_authentication_wrong_state verify_authentication_mismatch)
qed

text \<open>
  The theorem at a session in state \<open>ENCAPSULATED\<close> and at a fresh one.
\<close>

theorem failure_atomicity_witness:
  "state toy_encapsulated \<noteq> ''INITIALIZED''
   \<and> start_authentication toy_crypto [1] ''a'' ''b'' ''c'' toy_encapsulated [2]
        = ([(''status'', ''ERROR''), (''message'', ''Invalid session state'')], toy_encapsulated)
   \<and> state toy_session \<noteq> ''ENCAPSULATED''
   \<and> verify_authentication toy_crypto ''t'' toy_session [] = (False, toy_session)
   \<and> state toy_encapsulated = ''ENCAPSULATED''
   \<and> shared_secret toy_encapsulated = Some (replicate 32 234)
   \<and> [] \<noteq> take 16 (replicate 32 (234 :: byte))
   \<and> \<not> fst (verify_authentication toy_crypto ''t'' toy_encapsulated [])
   \<and> state (snd (verify_authentication toy_crypto ''t'' toy_encapsulated [])) = ''ENCAPSULATED''"
proof -
  have s: "shared_secret toy_encapsulated = Some (replicate 32 234)" by code_simp
  have n: "[] \<noteq> take 16 (replicate 32 (234 :: byte))" by code_simp
  from failure_atomicity
         [of toy_encapsulated toy_crypto "[1]" "''a''" "''b''" "''c''" "[2]" "''t''" "[]"
             "replicate 32 234"]
       failure_atomicity
         [of toy_session toy_crypto "[1]" "''a''" "''b''" "''c''" "[2]" "''t''" "[]"
             "replicate 32 234"]
       s n toy_states
  show ?thesis by simp
qed

section \<open>Message protection\<close>

text \<open>
  C3 (encrypt/decrypt round trip). Let the block cipher be invertible on 16-byte blocks
  under every key of a legal length, as AES is. In state \<open>AUTHENTICATED\<close> with a
  session key, \<open>encrypt_message\<close> returns a message whenever the key has a legal
  length and the IV 16 bytes, and \<open>decrypt_message\<close> on the \<open>iv\<close>, \<open>ciphertext\<close> and
  \<open>hmac\<close> fields of any message it returns gives back the plaintext, of any length,
  and logs \<open>MESSAGE_DECRYPTED\<close>.
\<close>

theorem encrypt_decrypt_roundtrip:
  assumes inv: "\<And>k b. length k \<in> {16, 24, 32} \<Longrightarrow> length b = 16 \<Longrightarrow>
                  length (aes_block_encrypt P k b) = 16
                  \<and> aes_block_decrypt P k (aes_block_encrypt P k b) = b"
    and st: "state s = ''AUTHENTICATED''"
    and key: "session_key s = Some key"
  shows "(length key \<in> {16, 24, 32} \<and> length iv = 16 \<longrightarrow>
            (\<exists>d. encrypt_message P iv now s plaintext = Inr d))
         \<and> (\<forall>d. encrypt_message P iv now s plaintext = Inr d \<longrightarrow>
              (\<exists>iv_hex ciphertext_hex hmac_hex.
                 map_of d ''iv'' = Some iv_hex
                 \<and> map_of d ''ciphertext'' = Some ciphertext_hex
                 \<and> map_of d ''hmac'' = Some hmac_hex
                 \<and> decrypt_message P now' s iv_hex ciphertext_hex hmac_hex
                     = (Some plaintext, log_event now' ''MESSAGE_DECRYPTED'' s)))"
proof (intro conjI allI impI)
  assume "length key \<in> {16, 24, 32} \<and> length iv = 16"
  then show "\<exists>d. encrypt_message P iv now s plaintext = Inr d"
    using encrypt_message_ok[OF st key, of iv P now plaintext] by blast
next
  fix d
  assume e: "encrypt_message P iv now s plaintext = Inr d"
  have l: "length key \<in> {16, 24, 32}" "length iv = 16"
    using encrypt_message_Inr[OF st key e] by simp_all
  define ct where "ct = cbc_encrypt_blocks (aes_block_encrypt P key) iv (pad plaintext 16)"
  have d: "d = [(''iv'', hex iv), (''ciphertext'', hex ct),
                (''hmac'', hex (hmac_sha256 P key ct)), (''timestamp'', now)]"
    using e encrypt_message_ok[OF st key l, of P now plaintext] by (simp add: ct_def)
  have r: "decrypt_message P now' s (hex iv) (hex ct) (hex (hmac_sha256 P key ct))
             = (Some plaintext, log_event now' ''MESSAGE_DECRYPTED'' s)"
    using decrypt_roundtrip[OF inv[OF l(1)] st key l ct_def] by simp
  show "\<exists>iv_hex ciphertext_hex hmac_hex.
          map_of d ''iv'' = Some iv_hex
          \<and> map_of d ''ciphertext'' = Some ciphertext_hex
          \<and> map_of d ''hmac'' = Some hmac_hex
          \<and> decrypt_message P now' s iv_hex ciphertext_hex hmac_hex
              = (Some plaintext, log_event now' ''MESSAGE_DECRYPTED'' s)"
    using r by (simp add: d)
qed

text \<open>
  The theorem at the empty message and at a message of one block, under the 32-byte key
  of an authenticated session and an IV of 16 bytes.
\<close>

theorem encrypt_decrypt_roundtrip_witness:
  "state toy_authenticated = ''AUTHENTICATED''
   \<and> session_key toy_authenticated = Some (replicate 32 28)
   \<and> encrypt_message toy_crypto (replicate 16 0) ''t'' toy_authenticated []
       = Inr [(''iv'', ''00000000000000000000000000000000''),
              (''ciphertext'', ''90909090909090909090909090909090''),
              (''hmac'', ''8080808080808080808080808080808080808080808080808080808080808080''),
              (''timestamp'', ''t'')]
   \<and> decrypt_message toy_crypto ''u'' toy_authenticated
        ''00000000000000000000000000000000''
        ''90909090909090909090909090909090''
        ''8080808080808080808080808080808080808080808080808080808080808080''
       = (Some [], log_event ''u'' ''MESSAGE_DECRYPTED'' toy_authenticated)
   \<and> encrypt_message toy_crypto (replicate 16 0) ''t'' toy_authenticated (replicate 16 1)
       = Inr [(''iv'', ''00000000000000000000000000000000''),
              (''ciphertext'', ''8181818181818181818181818181818111111111111111111111111111111111''),
              (''hmac'', ''e0e0e0e0e0e0e0e0e0e0e0e0e0e0e0e0e0e0e0e0e0e0e0e0e0e0e0e0e0e0e0e0''),
              (''timestamp'', ''t'')]
   \<and> decrypt_message toy_crypto ''u'' toy_authenticated
        ''00000000000000000000000000000000''
        ''8181818181818181818181818181818111111111111111111111111111111111''
        ''e0e0e0e0e0e0e0e0e0e0e0e0e0e0e0e0e0e0e0e0e0e0e0e0e0e0e0e0e0e0e0e0''
       = (Some (replicate 16 1), log_event ''u'' ''MESSAGE_DECRYPTED'' toy_authenticated)"
proof -
  have e0: "encrypt_message toy_crypto (replicate 16 0) ''t'' toy_authenticated []
       = Inr [(''iv'', ''00000000000000000000000000000000''),
              (''ciphertext'', ''90909090909090909090909090909090''),
              (''hmac'', ''8080808080808080808080808080808080808080808080808080808080808080''),
              (''timestamp'', ''t'')]"
    by code_simp
  have e1: "encrypt_message toy_crypto (replicate 16 0) ''t'' toy_authenticated (replicate 16 1)
       = Inr [(''iv'', ''00000000000000000000000000000000''),
              (''ciphertext'', ''8181818181818181818181818181818111111111111111111111111111111111''),
              (''hmac'', ''e0e0e0e0e0e0e0e0e0e0e0e0e0e0e0e0e0e0e0e0e0e0e0e0e0e0e0e0e0e0e0e0''),
              (''timestamp'', ''t'')]"
    by code_simp
  have r: "\<forall>d. encrypt_message toy_crypto (replicate 16 0) ''t'' toy_authenticated plaintext = Inr d
             \<longrightarrow>
              (\<exists>iv_hex ciphertext_hex hmac_hex.
                 map_of d ''iv'' = Some iv_hex
                 \<and> map_of d ''ciphertext'' = Some ciphertext_hex
                 \<and> map_of d ''hmac'' = Some hmac_hex
                 \<and> decrypt_message toy_crypto ''u'' toy_authenticated
                       iv_hex ciphertext_hex hmac_hex
                     = (Some plaintext, log_event ''u'' ''MESSAGE_DECRYPTED'' toy_authenticated))"
    for plaintext
    using encrypt_decrypt_roundtrip
         [of toy_crypto toy_authenticated "replicate 32 28" "replicate 16 0" "''t''" plaintext
             "''u''",
          OF toy_cipher_inverse toy_states(3) toy_authenticated_key]
    by blast
  from r [of "[]"] r [of "replicate 16 1"] e0 e1 toy_states(3) toy_authenticated_key
  show ?thesis by simp
qed




end
